theory Spec2Isabelle
  imports Complex_Main
begin

section \<open>PHP values and the conversions the code relies on\<close>

text \<open>
  The program is the Laravel application of \<^verbatim>\<open>STANDALONE_AI_CALLING_SERVICE.md\<close>:
  \<^verbatim>\<open>OpenAIService\<close>, \<^verbatim>\<open>ElevenLabsController\<close> and the queued job
  \<^verbatim>\<open>ProcessElevenLabsWebhook\<close>.

  A value decoded by \<^verbatim>\<open>json_decode($content, true)\<close> is \<open>null\<close>, a boolean, an integer,
  a float, a string, a list or an array with string keys (key/value pairs, keys unique).
\<close>

datatype json =
    JNull
  | JBool bool
  | JInt int
  | JFloat rat
  | JStr string
  | JArr "json list"
  | JObj "(string \<times> json) list"

text \<open>
  What the program can raise: the HTTP client's \<^verbatim>\<open>ConnectionException\<close> (no response:
  connection refused, DNS failure, the 60 second timeout), the \<^verbatim>\<open>ErrorException\<close> into
  which Laravel's error handler turns a PHP warning, the \<^verbatim>\<open>QueryException\<close> of a violated
  database constraint, and the \<^verbatim>\<open>HttpException\<close> of \<^verbatim>\<open>abort\<close>.
\<close>

datatype error =
    ConnectionException
  | ErrorException
  | QueryException
  | HttpException int

text \<open>
  PHP's conversions whose rules are long (a string's numeric prefix, a float's truncation
  and printing) are parameters of the model; the short rules are written out below.
\<close>

record php =
  str_to_int :: "string \<Rightarrow> int"
  float_to_int :: "rat \<Rightarrow> int"
  num_to_str :: "json \<Rightarrow> string"

text \<open>\<^verbatim>\<open>(int) $v\<close>.\<close>

fun php_int :: "php \<Rightarrow> json \<Rightarrow> int" where
  "php_int P JNull = 0"
| "php_int P (JBool b) = (if b then 1 else 0)"
| "php_int P (JInt n) = n"
| "php_int P (JFloat r) = float_to_int P r"
| "php_int P (JStr s) = str_to_int P s"
| "php_int P (JArr xs) = (if xs = [] then 0 else 1)"
| "php_int P (JObj kvs) = (if kvs = [] then 0 else 1)"

text \<open>
  \<^verbatim>\<open>(string) $v\<close>. An array gives the warning "Array to string conversion", which
  Laravel's error handler raises as an \<^verbatim>\<open>ErrorException\<close>.
\<close>

fun php_string :: "php \<Rightarrow> json \<Rightarrow> error + string" where
  "php_string P JNull = Inr []"
| "php_string P (JBool b) = Inr (if b then ''1'' else [])"
| "php_string P (JInt n) = Inr (num_to_str P (JInt n))"
| "php_string P (JFloat r) = Inr (num_to_str P (JFloat r))"
| "php_string P (JStr s) = Inr s"
| "php_string P (JArr xs) = Inl ErrorException"
| "php_string P (JObj kvs) = Inl ErrorException"

text \<open>
  Truthiness of a string, as \<^verbatim>\<open>if ($s)\<close> and \<^verbatim>\<open>$s ?: null\<close> test it: the empty string
  and the string "0" are false.
\<close>

definition truthy :: "string \<Rightarrow> bool" where
  "truthy s = (s \<noteq> [] \<and> s \<noteq> ''0'')"

text \<open>
  PHP 8's loose comparison \<^verbatim>\<open>$v == $w\<close> of a decoded value with a string \<open>w\<close> that is
  not numeric and not empty (the four level names are such strings): a boolean is compared
  with the truth value of \<open>w\<close>, which is true; \<open>null\<close> is compared as the empty string; a
  number is compared as its decimal string, which is numeric; an array equals no string.
\<close>

fun loose_eq_word :: "json \<Rightarrow> string \<Rightarrow> bool" where
  "loose_eq_word JNull w = False"
| "loose_eq_word (JBool b) w = b"
| "loose_eq_word (JInt n) w = False"
| "loose_eq_word (JFloat r) w = False"
| "loose_eq_word (JStr s) w = (s = w)"
| "loose_eq_word (JArr xs) w = False"
| "loose_eq_word (JObj kvs) w = False"

text \<open>\<^verbatim>\<open>in_array($v, $words)\<close>, without the strict flag.\<close>

definition in_array :: "json \<Rightarrow> string list \<Rightarrow> bool" where
  "in_array v ws = list_ex (loose_eq_word v) ws"

text \<open>
  \<^verbatim>\<open>data_get($target, $key, $default)\<close> for a key without a dot: the entry of an array
  that has the key, the default for every other target.
\<close>

fun data_get :: "json \<Rightarrow> string \<Rightarrow> json \<Rightarrow> json" where
  "data_get (JObj kvs) k d = (case map_of kvs k of Some v \<Rightarrow> v | None \<Rightarrow> d)"
| "data_get t k d = d"

section \<open>The HTTP client\<close>

text \<open>
  A request either raises \<^verbatim>\<open>ConnectionException\<close> or gives a response. Of a response
  the code reads the status and the body; for the reasoning service the body stands for
  \<^verbatim>\<open>json_decode(data_get($resp->json(), 'choices.0.message.content'), true)\<close>, which is
  \<open>null\<close> when the content is missing or is not JSON.
\<close>

record 'b response =
  status :: int
  body :: 'b

datatype 'b http_outcome = Response "'b response" | ConnectionFailed

definition successful :: "'b response \<Rightarrow> bool" where
  "successful r = (200 \<le> status r \<and> status r < 300)"

definition serverError :: "'b response \<Rightarrow> bool" where
  "serverError r = (500 \<le> status r)"

definition clientError :: "'b response \<Rightarrow> bool" where
  "clientError r = (400 \<le> status r \<and> status r < 500)"

definition failed :: "'b response \<Rightarrow> bool" where
  "failed r = (serverError r \<or> clientError r)"

section \<open>OpenAIService\<close>

text \<open>
  What one call of the service did to the outside: the prompts it posted, in order, and
  the seconds it slept.
\<close>

record call_log =
  requests :: "string list"
  slept :: "nat list"

type_synonym analysis = "(string \<times> json) list"

definition prompt_of :: "string \<Rightarrow> string" where
  "prompt_of summary =
     ''Classify the lead'' @ [CHR 0x27] @ ''s interest level for a real-estate listing as one of: unknown, cold, warm, hot. ''
     @ ''Also provide an integer score 0-100. Return strict JSON with keys: interest_level, interest_score, rationale.''
     @ [CHR 0x0A, CHR 0x0A] @ ''Summary:'' @ [CHR 0x0A] @ summary"

definition backoff :: "nat list" where
  "backoff = [1, 2, 4]"

text \<open>
  The \<^verbatim>\<open>foreach ($backoff as $i => $delay)\<close> loop. \<open>post i\<close> is the outcome of the
  request of iteration \<open>i\<close>; \<open>resp\<close> is \<^verbatim>\<open>$resp\<close>, \<open>None\<close> for \<open>null\<close>. The result
  is the exception that left the loop, or \<^verbatim>\<open>$resp\<close> after it.
\<close>

fun post_loop ::
  "string \<Rightarrow> (nat \<Rightarrow> json http_outcome) \<Rightarrow> nat \<Rightarrow> nat list \<Rightarrow> json response option \<Rightarrow> call_log
    \<Rightarrow> call_log \<times> (error + json response option)" where
  "post_loop prompt post i [] resp lg = (lg, Inr resp)"
| "post_loop prompt post i (delay # rest) resp lg =
     (let lg1 = lg\<lparr>requests := requests lg @ [prompt]\<rparr> in
      case post i of
        ConnectionFailed \<Rightarrow> (lg1, Inl ConnectionException)
      | Response r \<Rightarrow>
          if successful r then (lg1, Inr (Some r))
          else if 500 \<le> status r \<or> status r = 429
            then post_loop prompt post (Suc i) rest (Some r) (lg1\<lparr>slept := slept lg1 @ [delay]\<rparr>)
          else (lg1, Inr (Some r)))"

definition analysis_failed :: analysis where
  "analysis_failed =
     [(''interest_level'', JStr ''unknown''), (''interest_score'', JInt 0),
      (''rationale'', JStr ''analysis_failed'')]"

definition levels :: "string list" where
  "levels = [''unknown'', ''cold'', ''warm'', ''hot'']"

text \<open>The lines after the failure check: level, score, rationale and \<^verbatim>\<open>compact\<close>.\<close>

definition parse_result :: "php \<Rightarrow> json \<Rightarrow> error + analysis" where
  "parse_result P parsed =
     (let level = (if in_array (data_get parsed ''interest_level'' JNull) levels
                   then data_get parsed ''interest_level'' JNull else JStr ''unknown'');
          score = max 0 (min 100 (php_int P (data_get parsed ''interest_score'' (JInt 0))))
      in case php_string P (data_get parsed ''rationale'' (JStr [])) of
           Inl e \<Rightarrow> Inl e
         | Inr rationale \<Rightarrow>
             Inr [(''level'', level), (''score'', JInt score), (''rationale'', JStr rationale)])"

definition analyzeCallSummaryForInterestLevel ::
  "php \<Rightarrow> (string \<Rightarrow> nat \<Rightarrow> json http_outcome) \<Rightarrow> string \<Rightarrow> call_log \<times> (error + analysis)" where
  "analyzeCallSummaryForInterestLevel P openai summary =
     (let prompt = prompt_of summary in
      case post_loop prompt (openai prompt) 0 backoff None \<lparr>requests = [], slept = []\<rparr> of
        (lg, Inl e) \<Rightarrow> (lg, Inl e)
      | (lg, Inr None) \<Rightarrow> (lg, Inr analysis_failed)
      | (lg, Inr (Some r)) \<Rightarrow>
          if failed r then (lg, Inr analysis_failed) else (lg, parse_result P (body r)))"

section \<open>ElevenLabsController\<close>

text \<open>
  Of a request the controller reads the \<^verbatim>\<open>X-ElevenLabs-Signature\<close> header (\<open>None\<close> when
  the request has none), the raw body \<^verbatim>\<open>getContent()\<close> and the input \<^verbatim>\<open>all()\<close>. The
  input of the webhook is the event: each key of the payload may be absent.
\<close>

record event =
  conversation_id :: "string option"
  summary :: "string option"
  transcript :: "string option"
  recording_url :: "string option"
  contact_id :: "int option"
  property_id :: "int option"

record request =
  signature :: "string option"
  content :: string
  input :: event

text \<open>
  \<open>mac payload secret\<close> stands for \<^verbatim>\<open>base64_encode(hash_hmac('sha256', $payload, $secret, true))\<close>;
  \<^verbatim>\<open>hash_equals\<close> is equality of the two strings, and \<^verbatim>\<open>(string) $sig\<close> of a missing
  header is the empty string. \<^verbatim>\<open>abort_unless(..., 401)\<close> raises the \<^verbatim>\<open>HttpException\<close>.
\<close>

definition verifySignature :: "(string \<Rightarrow> string \<Rightarrow> string) \<Rightarrow> string \<Rightarrow> request \<Rightarrow> error + unit" where
  "verifySignature mac secret req =
     (let sig = signature req;
          payload = content req;
          calc = mac payload secret
      in if calc = (case sig of None \<Rightarrow> [] | Some s \<Rightarrow> s) then Inr () else Inl (HttpException 401))"

text \<open>
  The queue is the list of dispatched payloads. The result is the exception or the JSON
  response \<^verbatim>\<open>['status' => 'accepted']\<close>, with the queue after the call.
\<close>

definition handleWebhook ::
  "(string \<Rightarrow> string \<Rightarrow> string) \<Rightarrow> string \<Rightarrow> request \<Rightarrow> event list
    \<Rightarrow> (error + (string \<times> string) list) \<times> event list" where
  "handleWebhook mac secret req queue =
     (case verifySignature mac secret req of
        Inl e \<Rightarrow> (Inl e, queue)
      | Inr u \<Rightarrow> (Inr [(''status'', ''accepted'')], queue @ [input req]))"

section \<open>ProcessElevenLabsWebhook\<close>

text \<open>
  The stores the job works on. Of a contact and of a property the job reads the identity
  only, so each table is the set of its keys. A note carries the attributes
  \<^verbatim>\<open>Note::create\<close> is given; a row of the pivot \<^verbatim>\<open>contact_property\<close> carries the
  columns of \<^verbatim>\<open>withPivot\<close>, keyed by the unique pair (contact, property).
\<close>

datatype notable_class = Contact | Property

record Note =
  notable_type :: notable_class
  notable_id :: int
  note_type :: string
  title :: string
  note_body :: "string option"
  note_conversation_id :: "string option"
  recording_path :: "string option"
  transcript_path :: "string option"
  meta_raw :: event

record pivot =
  interest_level :: json
  interest_score :: int
  source :: "string option"
  last_contacted_at :: "nat option"
  last_conversation_id :: "string option"

record world =
  storage :: "string \<rightharpoonup> string"
  contacts :: "int set"
  properties :: "int set"
  notes_table :: "Note list"
  contact_property :: "(int \<times> int) \<rightharpoonup> pivot"
  warnings :: "string list"
  posted :: "string list"

text \<open>
  \<open>storage\<close> is the disk of \<^verbatim>\<open>Storage::put\<close>, \<open>warnings\<close> what \<^verbatim>\<open>Log::warning\<close> wrote,
  \<open>posted\<close> the prompts sent to the reasoning service. A write to the disk and a statement
  on the database succeed, but for the foreign key named below. The surroundings of one run of the
  job: \<^verbatim>\<open>date('Y/m/d')\<close>, \<^verbatim>\<open>now()\<close>, the outcome of \<^verbatim>\<open>Http::get\<close> of a URL, the
  outcome of the request of each iteration to the reasoning service, and PHP's conversions.
\<close>

record env =
  today :: string
  now :: nat
  http_get :: "string \<Rightarrow> string http_outcome"
  openai :: "string \<Rightarrow> nat \<Rightarrow> json http_outcome"
  conv :: php

text \<open>Persist transcript.\<close>

definition persist_transcript :: "env \<Rightarrow> string \<Rightarrow> string \<Rightarrow> world \<Rightarrow> string option \<times> world" where
  "persist_transcript e conversationId transcript' w =
     (if truthy transcript' then
        (let transcriptPath = ''calls/'' @ today e @ ''/'' @ conversationId @ ''-transcript.txt''
         in (Some transcriptPath, w\<lparr>storage := (storage w)(transcriptPath \<mapsto> transcript')\<rparr>))
      else (None, w))"

text \<open>Download recording: the \<^verbatim>\<open>catch (Throwable $e)\<close> logs a warning and goes on.\<close>

definition download_recording :: "env \<Rightarrow> string \<Rightarrow> string \<Rightarrow> world \<Rightarrow> string option \<times> world" where
  "download_recording e conversationId recordingUrl w =
     (if truthy recordingUrl then
        (case http_get e recordingUrl of
           ConnectionFailed \<Rightarrow> (None, w\<lparr>warnings := warnings w @ [''Recording download failed'']\<rparr>)
         | Response resp \<Rightarrow>
             if successful resp then
               (let recordingPath = ''calls/'' @ today e @ ''/'' @ conversationId @ ''-recording.mp3''
                in (Some recordingPath, w\<lparr>storage := (storage w)(recordingPath \<mapsto> body resp)\<rparr>))
             else (None, w))
      else (None, w))"

text \<open>\<^verbatim>\<open>Contact::find($contactId) ?: Property::find($propertyId)\<close>, with the class found.\<close>

definition find_notable :: "world \<Rightarrow> int \<Rightarrow> int \<Rightarrow> (notable_class \<times> int) option" where
  "find_notable w contactId propertyId =
     (if contactId \<in> contacts w then Some (Contact, contactId)
      else if propertyId \<in> properties w then Some (Property, propertyId)
      else None)"

text \<open>Create Note.\<close>

definition create_note ::
  "event \<Rightarrow> string \<Rightarrow> string \<Rightarrow> int \<Rightarrow> int \<Rightarrow> string option \<Rightarrow> string option \<Rightarrow> world \<Rightarrow> world" where
  "create_note data conversationId summary' contactId propertyId recordingPath transcriptPath w =
     (case find_notable w contactId propertyId of
        None \<Rightarrow> w
      | Some (cls, nid) \<Rightarrow>
          w\<lparr>notes_table := notes_table w @
            [\<lparr>notable_type = cls, notable_id = nid, note_type = ''call_summary'',
              title = ''AI Call Summary'',
              note_body = (if truthy summary' then Some summary' else None),
              note_conversation_id = (if truthy conversationId then Some conversationId else None),
              recording_path = recordingPath, transcript_path = transcriptPath,
              meta_raw = data\<rparr>]\<rparr>)"

text \<open>
  \<^verbatim>\<open>$contact->properties()->syncWithoutDetaching([$propertyId => [...]])\<close>: the row of the
  pair is updated in the four columns when it exists and inserted otherwise, the other
  columns at their defaults. The insert of a property that does not exist violates the
  foreign key of \<^verbatim>\<open>contact_property\<close>.
\<close>

definition syncWithoutDetaching ::
  "int \<Rightarrow> int \<Rightarrow> json \<Rightarrow> int \<Rightarrow> nat \<Rightarrow> string \<Rightarrow> world \<Rightarrow> error option \<times> world" where
  "syncWithoutDetaching contactId propertyId level score t conversationId w =
     (case contact_property w (contactId, propertyId) of
        Some row \<Rightarrow>
          (None, w\<lparr>contact_property := (contact_property w)((contactId, propertyId) \<mapsto>
             row\<lparr>interest_level := level, interest_score := score,
                 last_contacted_at := Some t, last_conversation_id := Some conversationId\<rparr>)\<rparr>)
      | None \<Rightarrow>
          if propertyId \<in> properties w then
            (None, w\<lparr>contact_property := (contact_property w)((contactId, propertyId) \<mapsto>
               \<lparr>interest_level = level, interest_score = score, source = None,
                last_contacted_at = Some t, last_conversation_id = Some conversationId\<rparr>)\<rparr>)
          else (Some QueryException, w))"

text \<open>
  Interest analysis and the update of the pivot. \<^verbatim>\<open>$analysis['level'] ?? 'unknown'\<close> is
  the default when the key is missing or its value is \<open>null\<close>.
\<close>

definition coalesce :: "analysis \<Rightarrow> string \<Rightarrow> json \<Rightarrow> json" where
  "coalesce a k d = (case map_of a k of None \<Rightarrow> d | Some JNull \<Rightarrow> d | Some v \<Rightarrow> v)"

definition update_interest :: "env \<Rightarrow> string \<Rightarrow> string \<Rightarrow> int \<Rightarrow> int \<Rightarrow> world \<Rightarrow> error option \<times> world" where
  "update_interest e conversationId summary' contactId propertyId w =
     (case analyzeCallSummaryForInterestLevel (conv e) (openai e) summary' of
        (lg, Inl err) \<Rightarrow> (Some err, w\<lparr>posted := posted w @ requests lg\<rparr>)
      | (lg, Inr analysis) \<Rightarrow>
          (let w1 = w\<lparr>posted := posted w @ requests lg\<rparr>;
               level = coalesce analysis ''level'' (JStr ''unknown'');
               score = php_int (conv e) (coalesce analysis ''score'' (JInt 0))
           in if contactId \<noteq> 0 \<and> propertyId \<noteq> 0 then
                (if contactId \<in> contacts w1
                 then syncWithoutDetaching contactId propertyId level score (now e) conversationId w1
                 else (None, w1))
              else (None, w1)))"

text \<open>
  \<^verbatim>\<open>handle\<close>: the exception that ended the run (\<open>None\<close> when it completed) and the world
  after it. What was written before an exception stays written. \<open>string_of\<close> is
  \<^verbatim>\<open>(string) ($data[$key] ?? '')\<close> and \<open>int_of\<close> is \<^verbatim>\<open>(int) ($data[$key] ?? 0)\<close>, the
  payload's values being strings and integers.
\<close>

definition string_of :: "string option \<Rightarrow> string" where
  "string_of v = (case v of None \<Rightarrow> [] | Some s \<Rightarrow> s)"

definition int_of :: "int option \<Rightarrow> int" where
  "int_of v = (case v of None \<Rightarrow> 0 | Some n \<Rightarrow> n)"

definition handle :: "env \<Rightarrow> event \<Rightarrow> world \<Rightarrow> error option \<times> world" where
  "handle e data w =
     (let conversationId = string_of (conversation_id data);
          summary' = string_of (summary data);
          transcript' = string_of (transcript data);
          recordingUrl = string_of (recording_url data);
          contactId = int_of (contact_id data);
          propertyId = int_of (property_id data);
          (transcriptPath, w1) = persist_transcript e conversationId transcript' w;
          (recordingPath, w2) = download_recording e conversationId recordingUrl w1;
          w3 = create_note data conversationId summary' contactId propertyId recordingPath transcriptPath w2
      in update_interest e conversationId summary' contactId propertyId w3)"

section \<open>Concrete inputs\<close>

text \<open>
  Inputs on which the definitions are evaluated below. \<open>php0\<close> fixes the conversions that
  are parameters; none of the inputs below reaches them. \<open>mac0\<close> is a stand-in keyed digest.
\<close>

definition php0 :: php where
  "php0 = \<lparr>str_to_int = (\<lambda>s. 0), float_to_int = (\<lambda>r. 0), num_to_str = (\<lambda>v. [])\<rparr>"

definition hot88 :: "json response" where
  "hot88 = \<lparr>status = 200, body = JObj [(''interest_level'', JStr ''hot''), (''interest_score'', JInt 88)]\<rparr>"

definition env0 :: env where
  "env0 = \<lparr>today = ''2024/01/01'', now = 1000, http_get = (\<lambda>u. ConnectionFailed),
            openai = (\<lambda>p i. Response hot88), conv = php0\<rparr>"

definition world0 :: world where
  "world0 = \<lparr>storage = Map.empty, contacts = {1}, properties = {2}, notes_table = [],
              contact_property = Map.empty, warnings = [], posted = []\<rparr>"

definition event_c1 :: event where
  "event_c1 = \<lparr>conversation_id = Some ''c1'', summary = Some ''very interested, wants inspection'',
                transcript = None, recording_url = None, contact_id = Some 1, property_id = Some 2\<rparr>"

definition event_noid :: event where
  "event_noid = \<lparr>conversation_id = None, summary = Some ''call me'', transcript = Some ''hello'',
                  recording_url = None, contact_id = Some 1, property_id = Some 2\<rparr>"

definition secret0 :: string where
  "secret0 = ''s3cret''"

definition mac0 :: "string \<Rightarrow> string \<Rightarrow> string" where
  "mac0 payload secret = secret @ '':'' @ payload"

definition request_signed :: request where
  "request_signed = \<lparr>signature = Some ''s3cret:{}'', content = ''{}'', input = event_c1\<rparr>"

definition request_forged :: request where
  "request_forged = \<lparr>signature = Some (mac0 ''{}'' ''wrong''), content = ''{}'', input = event_c1\<rparr>"

definition request_unsigned :: request where
  "request_unsigned = \<lparr>signature = None, content = ''{}'', input = event_c1\<rparr>"

definition always500 :: "string \<Rightarrow> nat \<Rightarrow> json http_outcome" where
  "always500 = (\<lambda>p i. Response \<lparr>status = 500, body = JNull\<rparr>)"

definition world_listing_only :: world where
  "world_listing_only = world0\<lparr>contacts := {}\<rparr>"

definition env_down :: env where
  "env_down = env0\<lparr>openai := (\<lambda>p i. ConnectionFailed)\<rparr>"

definition event_unknown :: event where
  "event_unknown = \<lparr>conversation_id = Some ''c9'', summary = Some ''no answer'', transcript = Some ''hello'',
                     recording_url = None, contact_id = Some 7, property_id = Some 8\<rparr>"

section \<open>The classification client\<close>

lemma not_successful_retry: "500 \<le> status r \<or> status r = 429 \<Longrightarrow> \<not> successful r"
  by (auto simp: successful_def)

lemma failed_retry: "500 \<le> status r \<or> status r = 429 \<Longrightarrow> failed r"
  by (auto simp: failed_def serverError_def clientError_def)

text \<open>The loop posts the same prompt at least once and at most once per delay.\<close>

lemma post_loop_requests:
  "\<exists>k. requests (fst (post_loop p post i ds resp lg)) = requests lg @ replicate k p
        \<and> k \<le> length ds \<and> (ds \<noteq> [] \<longrightarrow> 0 < k)"
proof (induction ds arbitrary: i resp lg)
  case Nil
  then show ?case by simp
next
  case (Cons d ds)
  show ?case
  proof (cases "post i")
    case ConnectionFailed
    then show ?thesis by (simp add: Let_def) (rule exI[of _ 1], simp)
  next
    case (Response r)
    show ?thesis
    proof (cases "\<not> successful r \<and> (500 \<le> status r \<or> status r = 429)")
      case True
      from Cons.IH[of "Suc i" "Some r" "lg\<lparr>requests := requests lg @ [p], slept := slept lg @ [d]\<rparr>"]
      obtain k where k:
        "requests (fst (post_loop p post (Suc i) ds (Some r)
            (lg\<lparr>requests := requests lg @ [p], slept := slept lg @ [d]\<rparr>))) = (requests lg @ [p]) @ replicate k p"
        "k \<le> length ds"
        by auto
      show ?thesis using True Response k
        by (simp add: Let_def) (rule exI[of _ "Suc k"], simp add: replicate_app_Cons_same)
    next
      case False
      then show ?thesis using Response
        by (auto simp: Let_def intro: exI[of _ 1])
    qed
  qed
qed

text \<open>A response the loop ends with is the response of one of its requests.\<close>

lemma post_loop_resp:
  "post_loop p post i ds resp lg = (lg', Inr (Some r)) \<Longrightarrow>
     resp = Some r \<or> (\<exists>j. i \<le> j \<and> j < i + length ds \<and> post j = Response r)"
proof (induction ds arbitrary: i resp lg)
  case Nil
  then show ?case by simp
next
  case (Cons d ds)
  show ?case
  proof (cases "post i")
    case ConnectionFailed
    with Cons.prems show ?thesis by (simp add: Let_def)
  next
    case (Response r')
    show ?thesis
    proof (cases "\<not> successful r' \<and> (500 \<le> status r' \<or> status r' = 429)")
      case True
      with Cons.prems Response
      have "post_loop p post (Suc i) ds (Some r')
              (lg\<lparr>requests := requests lg @ [p], slept := slept lg @ [d]\<rparr>) = (lg', Inr (Some r))"
        by (simp add: Let_def)
      from Cons.IH[OF this]
      have "r' = r \<or> (\<exists>j. Suc i \<le> j \<and> j < Suc i + length ds \<and> post j = Response r)"
        by simp
      then show ?thesis
      proof
        assume "r' = r"
        with Response have "i \<le> i \<and> i < i + length (d # ds) \<and> post i = Response r" by simp
        then show ?thesis by blast
      next
        assume "\<exists>j. Suc i \<le> j \<and> j < Suc i + length ds \<and> post j = Response r"
        then obtain j where "Suc i \<le> j" "j < Suc i + length ds" "post j = Response r" by blast
        then have "i \<le> j \<and> j < i + length (d # ds) \<and> post j = Response r" by simp
        then show ?thesis by blast
      qed
    next
      case False
      with Cons.prems Response have "r' = r" by (auto simp: Let_def split: if_splits)
      with Response have "i \<le> i \<and> i < i + length (d # ds) \<and> post i = Response r" by simp
      then show ?thesis by blast
    qed
  qed
qed

text \<open>
  What holds of the retry loop: when each of the three requests is answered with a server
  error or with 429, the client posts three times, sleeps 1, 2 and 4 seconds (the last
  sleep after the last request) and returns the default.
\<close>

lemma retry_exhausted_default:
  assumes "\<forall>i<3. \<exists>r. oa (prompt_of s) i = Response r \<and> (500 \<le> status r \<or> status r = 429)"
  shows "analyzeCallSummaryForInterestLevel P oa s =
           (\<lparr>requests = [prompt_of s, prompt_of s, prompt_of s], slept = [1, 2, 4]\<rparr>, Inr analysis_failed)"
proof -
  obtain r0 where r0: "oa (prompt_of s) 0 = Response r0" "500 \<le> status r0 \<or> status r0 = 429"
    using assms by (metis zero_less_numeral)
  obtain r1 where r1: "oa (prompt_of s) (Suc 0) = Response r1" "500 \<le> status r1 \<or> status r1 = 429"
    using assms by (metis One_nat_def one_less_numeral_iff semiring_norm(77))
  obtain r2 where r2: "oa (prompt_of s) (Suc (Suc 0)) = Response r2" "500 \<le> status r2 \<or> status r2 = 429"
    using assms by (metis Suc_1 lessI numeral_3_eq_3)
  show ?thesis
    using r0 r1 r2 not_successful_retry[OF r0(2)] not_successful_retry[OF r1(2)]
      not_successful_retry[OF r2(2)] failed_retry[OF r2(2)]
    by (simp add: analyzeCallSummaryForInterestLevel_def backoff_def Let_def)
qed

text \<open>
  A first response with another failing status (a 4xx that is not 429) ends the loop
  after one request, without a sleep, and gives the default.
\<close>

lemma other_failure_aborts:
  assumes "oa (prompt_of s) 0 = Response r" "failed r" "\<not> (500 \<le> status r \<or> status r = 429)"
  shows "analyzeCallSummaryForInterestLevel P oa s =
           (\<lparr>requests = [prompt_of s], slept = []\<rparr>, Inr analysis_failed)"
proof -
  have "\<not> successful r"
    using assms(2,3) by (auto simp: successful_def failed_def serverError_def clientError_def)
  then show ?thesis using assms
    by (simp add: analyzeCallSummaryForInterestLevel_def backoff_def Let_def)
qed

text \<open>
  C4: the client is claimed to return the default after any failure and never to
  propagate an error. The retry schedule and the abort hold (\<open>retry_exhausted_default\<close>,
  \<open>other_failure_aborts\<close>), but the request is not inside a \<^verbatim>\<open>try\<close>: when the first
  request gets no response, the \<^verbatim>\<open>ConnectionException\<close> leaves the client after one
  request, and no default is returned. The check \<^verbatim>\<open>!$resp\<close> after the loop is never
  reached with \<open>null\<close>.
\<close>

theorem connection_failure_propagates:
  "analyzeCallSummaryForInterestLevel P (\<lambda>p i. ConnectionFailed) s =
     (\<lparr>requests = [prompt_of s], slept = []\<rparr>, Inl ConnectionException)"
  by (simp add: analyzeCallSummaryForInterestLevel_def backoff_def Let_def)

lemma in_array_levels:
  "in_array v levels \<longleftrightarrow> v = JBool True \<or> (\<exists>x. v = JStr x \<and> x \<in> set levels)"
  by (cases v) (auto simp: in_array_def levels_def)

text \<open>
  The success path returns the keys \<open>level\<close>, \<open>score\<close> and \<open>rationale\<close>; the score is
  within 0 and 100; the level is one of the four names or the boolean \<open>true\<close>.
\<close>

lemma parse_result_shape:
  assumes "parse_result P parsed = Inr a"
  shows "\<exists>l s r. a = [(''level'', l), (''score'', JInt s), (''rationale'', JStr r)] \<and> 0 \<le> s \<and> s \<le> 100
       \<and> (l = JBool True \<or> (\<exists>x. l = JStr x \<and> x \<in> set levels))"
proof (cases "in_array (data_get parsed ''interest_level'' JNull) levels")
  case True
  then have "data_get parsed ''interest_level'' JNull = JBool True
      \<or> (\<exists>x. data_get parsed ''interest_level'' JNull = JStr x \<and> x \<in> set levels)"
    by (simp add: in_array_levels)
  with True assms show ?thesis
    by (auto simp: parse_result_def Let_def split: sum.splits)
next
  case False
  with assms show ?thesis
    by (auto simp: parse_result_def Let_def levels_def split: sum.splits)
qed

text \<open>A level that is a string outside the four names becomes \<open>unknown\<close>.\<close>

lemma string_level_coerced:
  assumes "data_get parsed ''interest_level'' JNull = JStr x" "x \<notin> set levels"
    and "parse_result P parsed = Inr a"
  shows "map_of a ''level'' = Some (JStr ''unknown'')"
  using assms by (auto simp: parse_result_def Let_def in_array_levels split: sum.splits)

lemma analysis_shape:
  assumes "snd (analyzeCallSummaryForInterestLevel P oa s) = Inr a"
  shows "a = analysis_failed \<or>
     (\<exists>l sc r. a = [(''level'', l), (''score'', JInt sc), (''rationale'', JStr r)] \<and> 0 \<le> sc \<and> sc \<le> 100
        \<and> (l = JBool True \<or> (\<exists>x. l = JStr x \<and> x \<in> set levels)))"
proof -
  obtain lg res where pl:
    "post_loop (prompt_of s) (oa (prompt_of s)) 0 backoff None \<lparr>requests = [], slept = []\<rparr> = (lg, res)"
    by (cases "post_loop (prompt_of s) (oa (prompt_of s)) 0 backoff None \<lparr>requests = [], slept = []\<rparr>")
  show ?thesis
  proof (cases res)
    case (Inl e)
    with pl assms show ?thesis by (simp add: analyzeCallSummaryForInterestLevel_def Let_def)
  next
    case (Inr ro)
    show ?thesis
    proof (cases ro)
      case None
      with Inr pl assms show ?thesis by (simp add: analyzeCallSummaryForInterestLevel_def Let_def)
    next
      case (Some r)
      show ?thesis
      proof (cases "failed r")
        case True
        with Some Inr pl assms show ?thesis by (simp add: analyzeCallSummaryForInterestLevel_def Let_def)
      next
        case False
        with Some Inr pl assms have "parse_result P (body r) = Inr a"
          by (simp add: analyzeCallSummaryForInterestLevel_def Let_def)
        from parse_result_shape[OF this] show ?thesis by blast
      qed
    qed
  qed
qed

lemma analysis_posts:
  "\<exists>k. requests (fst (analyzeCallSummaryForInterestLevel P oa s)) = replicate k (prompt_of s) \<and> 0 < k \<and> k \<le> 3"
proof -
  obtain k where k:
    "requests (fst (post_loop (prompt_of s) (oa (prompt_of s)) 0 backoff None \<lparr>requests = [], slept = []\<rparr>))
      = requests \<lparr>requests = [], slept = []\<rparr> @ replicate k (prompt_of s)"
    "k \<le> length backoff" "backoff \<noteq> [] \<longrightarrow> 0 < k"
    using post_loop_requests by blast
  have "fst (analyzeCallSummaryForInterestLevel P oa s)
      = fst (post_loop (prompt_of s) (oa (prompt_of s)) 0 backoff None \<lparr>requests = [], slept = []\<rparr>)"
    by (auto simp: analyzeCallSummaryForInterestLevel_def Let_def split: prod.splits sum.splits option.splits)
  with k show ?thesis by (auto simp: backoff_def)
qed

lemma default_only_after_failed_response:
  assumes "snd (analyzeCallSummaryForInterestLevel P oa s) = Inr analysis_failed"
  shows "\<exists>i r. i < 3 \<and> oa (prompt_of s) i = Response r \<and> failed r"
proof -
  obtain lg res where pl:
    "post_loop (prompt_of s) (oa (prompt_of s)) 0 backoff None \<lparr>requests = [], slept = []\<rparr> = (lg, res)"
    by (cases "post_loop (prompt_of s) (oa (prompt_of s)) 0 backoff None \<lparr>requests = [], slept = []\<rparr>")
  have no_none: "res \<noteq> Inr None"
  proof
    assume "res = Inr None"
    with pl show False
      by (auto simp: backoff_def Let_def split: http_outcome.splits if_splits)
  qed
  from assms pl no_none obtain r where r: "res = Inr (Some r)"
    by (cases res) (auto simp: analyzeCallSummaryForInterestLevel_def Let_def split: option.splits)
  have "failed r"
  proof (rule ccontr)
    assume "\<not> failed r"
    with assms pl r have "parse_result P (body r) = Inr analysis_failed"
      by (simp add: analyzeCallSummaryForInterestLevel_def Let_def)
    from parse_result_shape[OF this] show False by (auto simp: analysis_failed_def)
  qed
  moreover from post_loop_resp[OF pl[unfolded r]]
  obtain j where "j < 3" "oa (prompt_of s) j = Response r"
    by (auto simp: backoff_def numeral_3_eq_3)
  ultimately show ?thesis by blast
qed

text \<open>
  C5: every parsed response is claimed to have its score clamped to 0..100 and every level
  outside the four names coerced to \<open>unknown\<close>. The clamp holds, and so does the coercion
  of every string (\<open>parse_result_shape\<close>, \<open>string_level_coerced\<close>); but \<^verbatim>\<open>in_array\<close> is
  called without the strict flag, so the JSON value \<open>true\<close> compares equal to
  \<open>'unknown'\<close> and is returned as the level. The response below has the level \<open>true\<close> and
  the score 150: the score comes back as 100, the level as \<open>true\<close>.
\<close>

theorem boolean_level_not_coerced:
  "snd (analyzeCallSummaryForInterestLevel P
      (\<lambda>p i. Response \<lparr>status = 200, body = JObj [(''interest_level'', JBool True),
         (''interest_score'', JInt 150), (''rationale'', JStr ''sure'')]\<rparr>) s)
    = Inr [(''level'', JBool True), (''score'', JInt 100), (''rationale'', JStr ''sure'')]"
  by (simp add: analyzeCallSummaryForInterestLevel_def backoff_def Let_def successful_def failed_def
      serverError_def clientError_def parse_result_def in_array_def levels_def)

text \<open>
  C6: the return value is claimed to have exactly the fields \<open>interest_level\<close>,
  \<open>interest_score\<close> and \<open>rationale\<close> on the success path as on the failure path. The
  failure path returns these keys (\<open>analysis_failed\<close>); the success path ends in
  \<^verbatim>\<open>compact('level','score','rationale')\<close> and returns the keys \<open>level\<close>, \<open>score\<close> and
  \<open>rationale\<close>, as for the response below.
\<close>

theorem success_path_keys:
  "snd (analyzeCallSummaryForInterestLevel P
      (\<lambda>p i. Response \<lparr>status = 200, body = JObj [(''interest_level'', JStr ''hot''),
         (''interest_score'', JInt 88), (''rationale'', JStr ''keen'')]\<rparr>) s)
    = Inr [(''level'', JStr ''hot''), (''score'', JInt 88), (''rationale'', JStr ''keen'')]"
  by (simp add: analyzeCallSummaryForInterestLevel_def backoff_def Let_def successful_def failed_def
      serverError_def clientError_def parse_result_def in_array_def levels_def)

text \<open>Every result other than the default is parsed from a response that has no failing status.\<close>

lemma result_from_response:
  assumes "snd (analyzeCallSummaryForInterestLevel P oa s) = Inr a" "a \<noteq> analysis_failed"
  shows "\<exists>i r. i < 3 \<and> oa (prompt_of s) i = Response r \<and> \<not> failed r \<and> parse_result P (body r) = Inr a"
proof -
  obtain lg res where pl:
    "post_loop (prompt_of s) (oa (prompt_of s)) 0 backoff None \<lparr>requests = [], slept = []\<rparr> = (lg, res)"
    by (cases "post_loop (prompt_of s) (oa (prompt_of s)) 0 backoff None \<lparr>requests = [], slept = []\<rparr>")
  from assms pl obtain r where r: "res = Inr (Some r)"
    by (cases res) (auto simp: analyzeCallSummaryForInterestLevel_def Let_def split: option.splits)
  have nf: "\<not> failed r"
    using assms pl r by (auto simp: analyzeCallSummaryForInterestLevel_def Let_def split: if_splits)
  with assms pl r have pr: "parse_result P (body r) = Inr a"
    by (simp add: analyzeCallSummaryForInterestLevel_def Let_def)
  from post_loop_resp[OF pl[unfolded r]]
  obtain j where "j < 3" "oa (prompt_of s) j = Response r"
    by (auto simp: backoff_def numeral_3_eq_3)
  with nf pr show ?thesis by blast
qed

text \<open>A successful first response ends the loop: one request, no sleep, its body parsed.\<close>

lemma first_success:
  assumes "oa (prompt_of s) 0 = Response r" "successful r"
  shows "analyzeCallSummaryForInterestLevel P oa s =
           (\<lparr>requests = [prompt_of s], slept = []\<rparr>, parse_result P (body r))"
proof -
  have "\<not> failed r" using assms(2) by (auto simp: successful_def failed_def serverError_def clientError_def)
  then show ?thesis using assms
    by (simp add: analyzeCallSummaryForInterestLevel_def backoff_def Let_def)
qed

text \<open>
  C7, as amended: the client has no test of the summary. For an empty summary it posts the
  prompt, which then ends after "Summary:", at least once and at most three times, as for
  any other summary. It returns the default only when one of these requests was answered
  with a failing status; every other result it returns is parsed from the response, without
  a failing status, of one of these requests; and when the first response is successful,
  one request is made and the outcome is what parsing its body gives.
\<close>

theorem empty_summary_is_posted:
  "(\<exists>k. 0 < k \<and> k \<le> 3 \<and> requests (fst (analyzeCallSummaryForInterestLevel P oa [])) = replicate k (prompt_of []))
   \<and> (snd (analyzeCallSummaryForInterestLevel P oa []) = Inr analysis_failed \<longrightarrow>
        (\<exists>i r. i < 3 \<and> oa (prompt_of []) i = Response r \<and> failed r))
   \<and> (\<forall>a. snd (analyzeCallSummaryForInterestLevel P oa []) = Inr a \<and> a \<noteq> analysis_failed \<longrightarrow>
        (\<exists>i r. i < 3 \<and> oa (prompt_of []) i = Response r \<and> \<not> failed r \<and> parse_result P (body r) = Inr a))
   \<and> (\<forall>r. oa (prompt_of []) 0 = Response r \<and> successful r \<longrightarrow>
        analyzeCallSummaryForInterestLevel P oa [] =
          (\<lparr>requests = [prompt_of []], slept = []\<rparr>, parse_result P (body r)))"
proof -
  have a: "\<exists>k. 0 < k \<and> k \<le> 3 \<and> requests (fst (analyzeCallSummaryForInterestLevel P oa [])) = replicate k (prompt_of [])"
    using analysis_posts[of P oa "[]"] by blast
  have b: "snd (analyzeCallSummaryForInterestLevel P oa []) = Inr analysis_failed \<longrightarrow>
        (\<exists>i r. i < 3 \<and> oa (prompt_of []) i = Response r \<and> failed r)"
    using default_only_after_failed_response[of P oa "[]"] by blast
  have c: "\<forall>a. snd (analyzeCallSummaryForInterestLevel P oa []) = Inr a \<and> a \<noteq> analysis_failed \<longrightarrow>
        (\<exists>i r. i < 3 \<and> oa (prompt_of []) i = Response r \<and> \<not> failed r \<and> parse_result P (body r) = Inr a)"
    using result_from_response[of P oa "[]"] by blast
  have d: "\<forall>r. oa (prompt_of []) 0 = Response r \<and> successful r \<longrightarrow>
        analyzeCallSummaryForInterestLevel P oa [] =
          (\<lparr>requests = [prompt_of []], slept = []\<rparr>, parse_result P (body r))"
    using first_success[of oa "[]" _ P] by blast
  from a b c d show ?thesis by blast
qed

theorem empty_summary_is_posted_witness:
  "snd (analyzeCallSummaryForInterestLevel php0 always500 []) = Inr analysis_failed
   \<and> (\<exists>i r. i < 3 \<and> always500 (prompt_of []) i = Response r \<and> failed r)
   \<and> openai env0 (prompt_of []) 0 = Response hot88 \<and> successful hot88
   \<and> analyzeCallSummaryForInterestLevel php0 (openai env0) [] =
        (\<lparr>requests = [prompt_of []], slept = []\<rparr>, parse_result php0 (body hot88))
   \<and> parse_result php0 (body hot88) = Inr [(''level'', JStr ''hot''), (''score'', JInt 88), (''rationale'', JStr [])]
   \<and> [(''level'', JStr ''hot''), (''score'', JInt 88), (''rationale'', JStr [])] \<noteq> analysis_failed
   \<and> (\<exists>i r. i < 3 \<and> openai env0 (prompt_of []) i = Response r \<and> \<not> failed r
         \<and> parse_result php0 (body r) = Inr [(''level'', JStr ''hot''), (''score'', JInt 88), (''rationale'', JStr [])])"
proof -
  have d: "snd (analyzeCallSummaryForInterestLevel php0 always500 []) = Inr analysis_failed"
    by (simp add: analyzeCallSummaryForInterestLevel_def backoff_def Let_def successful_def failed_def
        serverError_def clientError_def always500_def)
  have h: "openai env0 (prompt_of []) 0 = Response hot88" "successful hot88"
    by (simp_all add: env0_def hot88_def successful_def)
  have p: "parse_result php0 (body hot88) = Inr [(''level'', JStr ''hot''), (''score'', JInt 88), (''rationale'', JStr [])]"
    by (simp add: parse_result_def in_array_def levels_def hot88_def Let_def)
  have n: "[(''level'', JStr ''hot''), (''score'', JInt 88), (''rationale'', JStr [])] \<noteq> analysis_failed"
    by (simp add: analysis_failed_def)
  note t1 = empty_summary_is_posted[of php0 always500]
  note t2 = empty_summary_is_posted[of php0 "openai env0"]
  from t2 h have run: "analyzeCallSummaryForInterestLevel php0 (openai env0) [] =
        (\<lparr>requests = [prompt_of []], slept = []\<rparr>, parse_result php0 (body hot88))" by blast
  then have "snd (analyzeCallSummaryForInterestLevel php0 (openai env0) []) =
      Inr [(''level'', JStr ''hot''), (''score'', JInt 88), (''rationale'', JStr [])]"
    using p by simp
  with t2 n have e: "\<exists>i r. i < 3 \<and> openai env0 (prompt_of []) i = Response r \<and> \<not> failed r
         \<and> parse_result php0 (body r) = Inr [(''level'', JStr ''hot''), (''score'', JInt 88), (''rationale'', JStr [])]"
    by blast
  from t1 d have f: "\<exists>i r. i < 3 \<and> always500 (prompt_of []) i = Response r \<and> failed r" by blast
  from d f h run p n e show ?thesis by blast
qed

text \<open>
  C7 as stated fails: with an empty summary and a service that answers 200 with the level
  \<open>hot\<close> and the score 88, one request is posted and the result is not the default.
\<close>

theorem empty_summary_default_counterexample:
  "analyzeCallSummaryForInterestLevel php0 (openai env0) [] =
     (\<lparr>requests = [prompt_of []], slept = []\<rparr>,
      Inr [(''level'', JStr ''hot''), (''score'', JInt 88), (''rationale'', JStr [])])
   \<and> requests (fst (analyzeCallSummaryForInterestLevel php0 (openai env0) [])) \<noteq> []
   \<and> snd (analyzeCallSummaryForInterestLevel php0 (openai env0) []) \<noteq> Inr analysis_failed"
proof -
  have "analyzeCallSummaryForInterestLevel php0 (openai env0) [] =
     (\<lparr>requests = [prompt_of []], slept = []\<rparr>,
      Inr [(''level'', JStr ''hot''), (''score'', JInt 88), (''rationale'', JStr [])])"
    by (simp add: analyzeCallSummaryForInterestLevel_def backoff_def Let_def successful_def failed_def
        serverError_def clientError_def parse_result_def in_array_def levels_def env0_def hot88_def)
  then show ?thesis by (simp add: analysis_failed_def)
qed

section \<open>The webhook receiver\<close>

text \<open>
  C3: a request whose signature header differs from the keyed digest of the raw body (a
  digest made with another secret is such a header, and so is a missing header, the digest
  not being empty) is answered with the error 401 and leaves the queue as it was; a request
  whose header equals the digest appends its payload to the queue and is answered with
  \<open>status: accepted\<close>.
\<close>

theorem webhook_signature_gate:
  "(string_of (signature req) \<noteq> mac (content req) secret \<longrightarrow>
      handleWebhook mac secret req queue = (Inl (HttpException 401), queue))
   \<and> (signature req = None \<and> mac (content req) secret \<noteq> [] \<longrightarrow>
      handleWebhook mac secret req queue = (Inl (HttpException 401), queue))
   \<and> (string_of (signature req) = mac (content req) secret \<longrightarrow>
      handleWebhook mac secret req queue = (Inr [(''status'', ''accepted'')], queue @ [input req]))"
  by (auto simp: handleWebhook_def verifySignature_def string_of_def Let_def split: option.splits)

theorem webhook_signature_gate_witness:
  "handleWebhook mac0 secret0 request_forged [] = (Inl (HttpException 401), [])
   \<and> handleWebhook mac0 secret0 request_unsigned [] = (Inl (HttpException 401), [])
   \<and> handleWebhook mac0 secret0 request_signed [] = (Inr [(''status'', ''accepted'')], [event_c1])"
  using webhook_signature_gate[of request_forged mac0 secret0 "[]"]
    webhook_signature_gate[of request_unsigned mac0 secret0 "[]"]
    webhook_signature_gate[of request_signed mac0 secret0 "[]"]
  by (simp add: request_forged_def request_unsigned_def request_signed_def mac0_def secret0_def string_of_def)

section \<open>The job\<close>

subsection \<open>What each step leaves alone\<close>

lemma persist_frame [simp]:
  "contacts (snd (persist_transcript e c t w)) = contacts w"
  "properties (snd (persist_transcript e c t w)) = properties w"
  "notes_table (snd (persist_transcript e c t w)) = notes_table w"
  "contact_property (snd (persist_transcript e c t w)) = contact_property w"
  "posted (snd (persist_transcript e c t w)) = posted w"
  by (simp_all add: persist_transcript_def Let_def)

lemma download_frame [simp]:
  "contacts (snd (download_recording e c u w)) = contacts w"
  "properties (snd (download_recording e c u w)) = properties w"
  "notes_table (snd (download_recording e c u w)) = notes_table w"
  "contact_property (snd (download_recording e c u w)) = contact_property w"
  "posted (snd (download_recording e c u w)) = posted w"
  by (simp_all add: download_recording_def Let_def split: http_outcome.splits)

lemma create_note_frame [simp]:
  "contacts (create_note d c s ci pj rp tp w) = contacts w"
  "properties (create_note d c s ci pj rp tp w) = properties w"
  "contact_property (create_note d c s ci pj rp tp w) = contact_property w"
  "posted (create_note d c s ci pj rp tp w) = posted w"
  "storage (create_note d c s ci pj rp tp w) = storage w"
  by (simp_all add: create_note_def split: option.splits prod.splits)

lemma sync_frame [simp]:
  "contacts (snd (syncWithoutDetaching ci pj l sc t c w)) = contacts w"
  "properties (snd (syncWithoutDetaching ci pj l sc t c w)) = properties w"
  "notes_table (snd (syncWithoutDetaching ci pj l sc t c w)) = notes_table w"
  "storage (snd (syncWithoutDetaching ci pj l sc t c w)) = storage w"
  "posted (snd (syncWithoutDetaching ci pj l sc t c w)) = posted w"
  by (simp_all add: syncWithoutDetaching_def split: option.splits)

lemma update_interest_frame [simp]:
  "contacts (snd (update_interest e c s ci pj w)) = contacts w"
  "properties (snd (update_interest e c s ci pj w)) = properties w"
  "notes_table (snd (update_interest e c s ci pj w)) = notes_table w"
  "storage (snd (update_interest e c s ci pj w)) = storage w"
  by (simp_all add: update_interest_def Let_def split: prod.splits sum.splits)

lemma update_interest_posted:
  "posted (snd (update_interest e c s ci pj w)) =
     posted w @ requests (fst (analyzeCallSummaryForInterestLevel (conv e) (openai e) s))"
  by (simp add: update_interest_def Let_def split: prod.splits sum.splits)

text \<open>The job as the composition of its steps.\<close>

lemma handle_steps:
  "handle e data w =
     update_interest e (string_of (conversation_id data)) (string_of (summary data))
       (int_of (contact_id data)) (int_of (property_id data))
       (create_note data (string_of (conversation_id data)) (string_of (summary data))
          (int_of (contact_id data)) (int_of (property_id data))
          (fst (download_recording e (string_of (conversation_id data)) (string_of (recording_url data))
                 (snd (persist_transcript e (string_of (conversation_id data)) (string_of (transcript data)) w))))
          (fst (persist_transcript e (string_of (conversation_id data)) (string_of (transcript data)) w))
          (snd (download_recording e (string_of (conversation_id data)) (string_of (recording_url data))
                 (snd (persist_transcript e (string_of (conversation_id data)) (string_of (transcript data)) w)))))"
  by (simp add: handle_def Let_def split: prod.splits)

lemma handle_frame [simp]:
  "contacts (snd (handle e data w)) = contacts w"
  "properties (snd (handle e data w)) = properties w"
  by (simp_all add: handle_steps)

lemma handle_posted:
  "posted (snd (handle e data w)) =
     posted w @ requests (fst (analyzeCallSummaryForInterestLevel (conv e) (openai e) (string_of (summary data))))"
  by (simp add: handle_steps update_interest_posted)

text \<open>
  The notes after a run: the notes before it and, when a contact or a property is found,
  one more; nothing is asked of the notes that exist.
\<close>

lemma handle_notes:
  "notes_table (snd (handle e data w)) = notes_table w @
     (case find_notable w (int_of (contact_id data)) (int_of (property_id data)) of
        None \<Rightarrow> []
      | Some (cls, nid) \<Rightarrow>
          [\<lparr>notable_type = cls, notable_id = nid, note_type = ''call_summary'',
            title = ''AI Call Summary'',
            note_body = (if truthy (string_of (summary data)) then Some (string_of (summary data)) else None),
            note_conversation_id = (if truthy (string_of (conversation_id data))
                                    then Some (string_of (conversation_id data)) else None),
            recording_path = fst (download_recording e (string_of (conversation_id data))
                 (string_of (recording_url data))
                 (snd (persist_transcript e (string_of (conversation_id data)) (string_of (transcript data)) w))),
            transcript_path = fst (persist_transcript e (string_of (conversation_id data))
                 (string_of (transcript data)) w),
            meta_raw = data\<rparr>])"
  by (simp add: handle_steps create_note_def find_notable_def)

lemma download_storage_other:
  "k \<noteq> ''calls/'' @ today e @ ''/'' @ c @ ''-recording.mp3'' \<Longrightarrow>
     storage (snd (download_recording e c u w)) k = storage w k"
  by (simp add: download_recording_def Let_def split: http_outcome.splits)

text \<open>A transcript that passes \<^verbatim>\<open>if ($transcript)\<close> is in the storage after the run.\<close>

lemma handle_transcript_stored:
  assumes "truthy (string_of (transcript data))"
  shows "storage (snd (handle e data w))
           (''calls/'' @ today e @ ''/'' @ string_of (conversation_id data) @ ''-transcript.txt'')
         = Some (string_of (transcript data))"
proof -
  have "storage (snd (persist_transcript e (string_of (conversation_id data)) (string_of (transcript data)) w))
           (''calls/'' @ today e @ ''/'' @ string_of (conversation_id data) @ ''-transcript.txt'')
         = Some (string_of (transcript data))"
    using assms by (simp add: persist_transcript_def Let_def)
  then show ?thesis
    by (simp add: handle_steps download_storage_other)
qed

lemma update_interest_result:
  assumes "snd (analyzeCallSummaryForInterestLevel (conv e) (openai e) s) = Inr a"
    and "c \<in> contacts w" "p \<in> properties w" "c \<noteq> 0" "p \<noteq> 0"
  shows "fst (update_interest e cv s c p w) = None"
    and "contact_property (snd (update_interest e cv s c p w)) (c, p) =
          Some \<lparr>interest_level = coalesce a ''level'' (JStr ''unknown''),
                interest_score = php_int (conv e) (coalesce a ''score'' (JInt 0)),
                source = (case contact_property w (c, p) of None \<Rightarrow> None | Some old \<Rightarrow> source old),
                last_contacted_at = Some (now e), last_conversation_id = Some cv\<rparr>"
  using assms
  by (auto simp: update_interest_def syncWithoutDetaching_def Let_def split: prod.splits sum.splits option.splits)

lemma update_interest_completes:
  "fst (update_interest e cv s c p w) = None \<Longrightarrow>
     \<exists>a. snd (analyzeCallSummaryForInterestLevel (conv e) (openai e) s) = Inr a"
  by (auto simp: update_interest_def Let_def split: prod.splits sum.splits)

lemma update_interest_no_contact:
  assumes "c \<notin> contacts w"
  shows "contact_property (snd (update_interest e cv s c p w)) = contact_property w"
    and "(fst (update_interest e cv s c p w) = None) =
           (\<exists>a. snd (analyzeCallSummaryForInterestLevel (conv e) (openai e) s) = Inr a)"
  using assms
  by (auto simp: update_interest_def Let_def split: prod.splits sum.splits)

subsection \<open>The note\<close>

text \<open>
  C1: at most one note is claimed per conversation identifier, the job looking for a note
  of that identifier before it creates one. The job does not look: \<^verbatim>\<open>Note::create\<close>
  runs whenever a contact or a property is found (\<open>handle_notes\<close>). Delivering the
  event of conversation \<open>c1\<close> twice leaves two notes of that identifier.
\<close>

theorem redelivery_creates_second_note:
  "map note_conversation_id (notes_table (snd (handle env0 event_c1 (snd (handle env0 event_c1 world0)))))
     = [Some ''c1'', Some ''c1'']"
  by (simp add: handle_notes find_notable_def)
     (simp add: event_c1_def world0_def int_of_def string_of_def truthy_def)

text \<open>
  C9: when the contact and the property of an event both exist, the note the run creates
  belongs to the contact; a note that belongs to the property is created only when the
  contact is not found.
\<close>

theorem note_owner_is_lead:
  "(int_of (contact_id data) \<in> contacts w \<and> int_of (property_id data) \<in> properties w \<longrightarrow>
      (\<exists>n. notes_table (snd (handle e data w)) = notes_table w @ [n]
           \<and> notable_type n = Contact \<and> notable_id n = int_of (contact_id data)))
   \<and> (\<forall>n. notes_table (snd (handle e data w)) = notes_table w @ [n] \<and> notable_type n = Property
         \<longrightarrow> int_of (contact_id data) \<notin> contacts w \<and> notable_id n = int_of (property_id data))"
  by (auto simp: handle_notes find_notable_def split: if_splits)

theorem note_owner_is_lead_witness:
  "(\<exists>n. notes_table (snd (handle env0 event_c1 world0)) = [n] \<and> notable_type n = Contact \<and> notable_id n = 1)
   \<and> (\<exists>n. notes_table (snd (handle env0 event_c1 world_listing_only)) = [n] \<and> notable_type n = Property)
   \<and> 1 \<notin> contacts world_listing_only"
proof -
  have a: "\<exists>n. notes_table (snd (handle env0 event_c1 world0)) = [n] \<and> notable_type n = Contact \<and> notable_id n = 1"
    using note_owner_is_lead[of event_c1 world0 env0]
    by (simp add: event_c1_def world0_def int_of_def)
  have b: "\<exists>n. notes_table (snd (handle env0 event_c1 world_listing_only)) = [n] \<and> notable_type n = Property"
    by (simp add: handle_notes find_notable_def)
       (simp add: event_c1_def world0_def world_listing_only_def int_of_def)
  then obtain n where n: "notes_table (snd (handle env0 event_c1 world_listing_only)) = [n]"
    "notable_type n = Property" by blast
  have "notes_table world_listing_only = []" by (simp add: world_listing_only_def world0_def)
  with n have "notes_table (snd (handle env0 event_c1 world_listing_only)) = notes_table world_listing_only @ [n]
      \<and> notable_type n = Property" by simp
  with note_owner_is_lead[of event_c1 world_listing_only env0]
  have "int_of (contact_id event_c1) \<notin> contacts world_listing_only" by blast
  then have "1 \<notin> contacts world_listing_only" by (simp add: event_c1_def int_of_def)
  with a b show ?thesis by blast
qed

subsection \<open>The association\<close>

text \<open>
  What holds of the update: for an event whose contact and property both exist (keys are
  the positive numbers of \<^verbatim>\<open>$table->id()\<close>, so \<open>0\<close> is no key), a run in which the
  classification returns the result \<open>a\<close> completes, and the row of the pair then holds the
  level and the score of \<open>a\<close> (\<open>unknown\<close> and \<open>0\<close> for the default), \<^verbatim>\<open>now()\<close> as
  \<open>last_contacted_at\<close> and the conversation identifier of the event; the row is created
  when there was none, and an existing row keeps its source.
\<close>

theorem association_set_to_classification:
  assumes "int_of (contact_id data) \<in> contacts w" "int_of (property_id data) \<in> properties w"
    and "0 \<notin> contacts w" "0 \<notin> properties w"
    and "snd (analyzeCallSummaryForInterestLevel (conv e) (openai e) (string_of (summary data))) = Inr a"
  shows "fst (handle e data w) = None \<and>
    (\<exists>row. contact_property (snd (handle e data w)) (int_of (contact_id data), int_of (property_id data)) = Some row
       \<and> last_contacted_at row = Some (now e)
       \<and> last_conversation_id row = Some (string_of (conversation_id data))
       \<and> source row = (case contact_property w (int_of (contact_id data), int_of (property_id data)) of
                          None \<Rightarrow> None | Some old \<Rightarrow> source old)
       \<and> (a = analysis_failed \<longrightarrow> interest_level row = JStr ''unknown'' \<and> interest_score row = 0)
       \<and> (\<forall>l sc r. a = [(''level'', l), (''score'', JInt sc), (''rationale'', JStr r)]
             \<longrightarrow> interest_level row = l \<and> interest_score row = sc))"
proof -
  let ?c = "int_of (contact_id data)" and ?p = "int_of (property_id data)"
  have nz: "?c \<noteq> 0" "?p \<noteq> 0" using assms(1-4) by auto
  have shape: "a = analysis_failed \<or>
     (\<exists>l sc r. a = [(''level'', l), (''score'', JInt sc), (''rationale'', JStr r)] \<and> 0 \<le> sc \<and> sc \<le> 100
        \<and> (l = JBool True \<or> (\<exists>x. l = JStr x \<and> x \<in> set levels)))"
    using analysis_shape[OF assms(5)] .
  have lvl: "a = analysis_failed \<Longrightarrow> coalesce a ''level'' (JStr ''unknown'') = JStr ''unknown''
      \<and> php_int (conv e) (coalesce a ''score'' (JInt 0)) = 0"
    by (simp add: coalesce_def analysis_failed_def)
  have ok: "\<And>l sc r. a = [(''level'', l), (''score'', JInt sc), (''rationale'', JStr r)] \<Longrightarrow>
      coalesce a ''level'' (JStr ''unknown'') = l \<and> php_int (conv e) (coalesce a ''score'' (JInt 0)) = sc"
    using shape by (auto simp: coalesce_def analysis_failed_def)
  show ?thesis
    using update_interest_result[OF assms(5), of ?c _ ?p, OF _ _ nz] assms(1,2) lvl ok
    by (auto simp: handle_steps)
qed

text \<open>
  The scenario of the specification: the event of conversation \<open>c1\<close> for contact 1 and
  property 2, the service answering \<open>hot\<close> and 88, no row before the run.
\<close>

theorem association_set_to_classification_witness:
  "fst (handle env0 event_c1 world0) = None \<and>
   contact_property (snd (handle env0 event_c1 world0)) (1, 2) =
     Some \<lparr>interest_level = JStr ''hot'', interest_score = 88, source = None,
           last_contacted_at = Some 1000, last_conversation_id = Some ''c1''\<rparr>"
proof -
  have a: "snd (analyzeCallSummaryForInterestLevel (conv env0) (openai env0) (string_of (summary event_c1)))
      = Inr [(''level'', JStr ''hot''), (''score'', JInt 88), (''rationale'', JStr [])]"
    by (simp add: analyzeCallSummaryForInterestLevel_def backoff_def Let_def successful_def failed_def
      serverError_def clientError_def parse_result_def in_array_def levels_def env0_def hot88_def)
  have h: "int_of (contact_id event_c1) \<in> contacts world0" "int_of (property_id event_c1) \<in> properties world0"
      "0 \<notin> contacts world0" "0 \<notin> properties world0"
    by (simp_all add: event_c1_def world0_def int_of_def)
  from association_set_to_classification[OF h a]
  obtain row where r: "fst (handle env0 event_c1 world0) = None"
    "contact_property (snd (handle env0 event_c1 world0))
       (int_of (contact_id event_c1), int_of (property_id event_c1)) = Some row"
    "last_contacted_at row = Some (now env0)"
    "last_conversation_id row = Some (string_of (conversation_id event_c1))"
    "source row = (case contact_property world0 (int_of (contact_id event_c1), int_of (property_id event_c1)) of
                          None \<Rightarrow> None | Some old \<Rightarrow> source old)"
    "interest_level row = JStr ''hot''" "interest_score row = 88"
    by auto
  have "row = \<lparr>interest_level = JStr ''hot'', interest_score = 88, source = None,
           last_contacted_at = Some 1000, last_conversation_id = Some ''c1''\<rparr>"
    using r(3-7) by (cases row) (simp add: env0_def event_c1_def world0_def string_of_def int_of_def)
  with r(1,2) show ?thesis by (simp add: event_c1_def int_of_def)
qed

text \<open>
  C8: for every event whose contact and property both exist, processing is claimed to set
  the row of the pair to the classification result. That holds for the runs in which the
  classification returns (\<open>association_set_to_classification\<close>); but the update comes
  after the classification, whose \<^verbatim>\<open>ConnectionException\<close> is not caught. With the
  reasoning service unreachable, the run of the event of conversation \<open>c1\<close> for contact 1
  and property 2, which both exist, creates the note and ends in the exception; the pair
  has no row.
\<close>

theorem association_missed_when_classification_raises:
  "int_of (contact_id event_c1) \<in> contacts world0
   \<and> int_of (property_id event_c1) \<in> properties world0
   \<and> handle env_down event_c1 world0 =
       (Some ConnectionException,
        world0\<lparr>notes_table := [\<lparr>notable_type = Contact, notable_id = 1, note_type = ''call_summary'',
                  title = ''AI Call Summary'', note_body = Some ''very interested, wants inspection'',
                  note_conversation_id = Some ''c1'', recording_path = None, transcript_path = None,
                  meta_raw = event_c1\<rparr>],
               posted := [prompt_of ''very interested, wants inspection'']\<rparr>)
   \<and> contact_property (snd (handle env_down event_c1 world0)) (1, 2) = None"
proof -
  have h: "handle env_down event_c1 world0 =
       (Some ConnectionException,
        world0\<lparr>notes_table := [\<lparr>notable_type = Contact, notable_id = 1, note_type = ''call_summary'',
                  title = ''AI Call Summary'', note_body = Some ''very interested, wants inspection'',
                  note_conversation_id = Some ''c1'', recording_path = None, transcript_path = None,
                  meta_raw = event_c1\<rparr>],
               posted := [prompt_of ''very interested, wants inspection'']\<rparr>)"
    by (simp add: handle_steps update_interest_def analyzeCallSummaryForInterestLevel_def backoff_def Let_def
      env_down_def env0_def event_c1_def world0_def int_of_def string_of_def
      create_note_def find_notable_def persist_transcript_def download_recording_def truthy_def)
  show ?thesis
    by (simp add: h) (simp add: event_c1_def world0_def int_of_def)
qed

subsection \<open>Events without a conversation identifier\<close>

text \<open>
  C2, as amended: the job has no validation step. An event whose conversation identifier is
  absent or empty goes through the same steps as any event, with the empty string as its
  identifier: a transcript that passes \<^verbatim>\<open>if ($transcript)\<close> is stored under
  \<open>calls/<date>/-transcript.txt\<close>; when the contact or the property exists a note is
  created, its conversation identifier \<open>null\<close>; the summary is posted to the reasoning
  service; and when both exist and the run completes, the row of the pair is updated with
  the empty string as \<open>last_conversation_id\<close>.
\<close>

theorem missing_conversation_id_processed:
  assumes "conversation_id data = None \<or> conversation_id data = Some []"
  shows "(truthy (string_of (transcript data)) \<longrightarrow>
            storage (snd (handle e data w)) (''calls/'' @ today e @ ''/-transcript.txt'')
              = Some (string_of (transcript data)))
    \<and> (find_notable w (int_of (contact_id data)) (int_of (property_id data)) \<noteq> None \<longrightarrow>
         (\<exists>n. notes_table (snd (handle e data w)) = notes_table w @ [n] \<and> note_conversation_id n = None))
    \<and> (\<exists>k. 0 < k \<and> posted (snd (handle e data w)) = posted w @ replicate k (prompt_of (string_of (summary data))))
    \<and> (int_of (contact_id data) \<in> contacts w \<and> int_of (property_id data) \<in> properties w
         \<and> 0 \<notin> contacts w \<and> 0 \<notin> properties w \<and> fst (handle e data w) = None \<longrightarrow>
         map_option last_conversation_id
           (contact_property (snd (handle e data w)) (int_of (contact_id data), int_of (property_id data)))
         = Some (Some []))"
proof -
  have cid: "string_of (conversation_id data) = []"
    using assms by (auto simp: string_of_def)
  have t: "truthy (string_of (transcript data)) \<longrightarrow>
            storage (snd (handle e data w)) (''calls/'' @ today e @ ''/-transcript.txt'')
              = Some (string_of (transcript data))"
    using handle_transcript_stored[of data e w] by (simp add: cid)
  have n: "find_notable w (int_of (contact_id data)) (int_of (property_id data)) \<noteq> None \<longrightarrow>
         (\<exists>n. notes_table (snd (handle e data w)) = notes_table w @ [n] \<and> note_conversation_id n = None)"
    by (auto simp: handle_notes cid truthy_def)
  have p: "\<exists>k. 0 < k \<and> posted (snd (handle e data w)) = posted w @ replicate k (prompt_of (string_of (summary data)))"
    using analysis_posts[of "conv e" "openai e" "string_of (summary data)"]
    by (auto simp: handle_posted)
  have a: "int_of (contact_id data) \<in> contacts w \<and> int_of (property_id data) \<in> properties w
         \<and> 0 \<notin> contacts w \<and> 0 \<notin> properties w \<and> fst (handle e data w) = None \<longrightarrow>
         map_option last_conversation_id
           (contact_property (snd (handle e data w)) (int_of (contact_id data), int_of (property_id data)))
         = Some (Some [])"
  proof
    assume h: "int_of (contact_id data) \<in> contacts w \<and> int_of (property_id data) \<in> properties w
         \<and> 0 \<notin> contacts w \<and> 0 \<notin> properties w \<and> fst (handle e data w) = None"
    then have nz: "int_of (contact_id data) \<noteq> 0" "int_of (property_id data) \<noteq> 0" by auto
    from h have "fst (handle e data w) = None" by simp
    then obtain a where a:
      "snd (analyzeCallSummaryForInterestLevel (conv e) (openai e) (string_of (summary data))) = Inr a"
      unfolding handle_steps by (blast dest: update_interest_completes)
    show "map_option last_conversation_id
           (contact_property (snd (handle e data w)) (int_of (contact_id data), int_of (property_id data)))
         = Some (Some [])"
      using update_interest_result(2)[OF a, of "int_of (contact_id data)" _ "int_of (property_id data)", OF _ _ nz] h
      by (simp add: handle_steps cid)
  qed
  from t n p a show ?thesis by blast
qed

lemma handle_event_noid:
  "handle env0 event_noid world0 =
     (None,
      world0\<lparr>storage := [''calls/2024/01/01/-transcript.txt'' \<mapsto> ''hello''],
             notes_table := [\<lparr>notable_type = Contact, notable_id = 1, note_type = ''call_summary'',
               title = ''AI Call Summary'', note_body = Some ''call me'', note_conversation_id = None,
               recording_path = None, transcript_path = Some ''calls/2024/01/01/-transcript.txt'',
               meta_raw = event_noid\<rparr>],
             contact_property := [(1, 2) \<mapsto> \<lparr>interest_level = JStr ''hot'', interest_score = 88, source = None,
               last_contacted_at = Some 1000, last_conversation_id = Some []\<rparr>],
             posted := [prompt_of ''call me'']\<rparr>)"
  by (simp add: handle_steps update_interest_def analyzeCallSummaryForInterestLevel_def backoff_def Let_def
      successful_def failed_def serverError_def clientError_def parse_result_def in_array_def levels_def
      env0_def hot88_def event_noid_def world0_def int_of_def string_of_def syncWithoutDetaching_def
      create_note_def find_notable_def persist_transcript_def download_recording_def truthy_def coalesce_def
      php0_def)

theorem missing_conversation_id_processed_witness:
  "storage (snd (handle env0 event_noid world0)) ''calls/2024/01/01/-transcript.txt'' = Some ''hello''
   \<and> (\<exists>n. notes_table (snd (handle env0 event_noid world0)) = [n] \<and> note_conversation_id n = None)
   \<and> (\<exists>k. 0 < k \<and> posted (snd (handle env0 event_noid world0)) = replicate k (prompt_of ''call me''))
   \<and> map_option last_conversation_id (contact_property (snd (handle env0 event_noid world0)) (1, 2)) = Some (Some [])"
proof -
  have c: "conversation_id event_noid = None \<or> conversation_id event_noid = Some []"
    by (simp add: event_noid_def)
  have fin: "fst (handle env0 event_noid world0) = None"
    by (simp add: handle_event_noid)
  show ?thesis
    using missing_conversation_id_processed[OF c, of env0 world0] fin
    by (simp add: event_noid_def world0_def env0_def int_of_def string_of_def truthy_def find_notable_def)
qed

text \<open>
  C2 as stated fails: the event below has no conversation identifier, and the run
  completes having stored the transcript, created a note, posted to the reasoning service
  and written the row of the pair.
\<close>

theorem missing_conversation_id_counterexample:
  "conversation_id event_noid = None
   \<and> fst (handle env0 event_noid world0) = None
   \<and> storage (snd (handle env0 event_noid world0)) \<noteq> storage world0
   \<and> notes_table (snd (handle env0 event_noid world0)) \<noteq> notes_table world0
   \<and> posted (snd (handle env0 event_noid world0)) \<noteq> posted world0
   \<and> contact_property (snd (handle env0 event_noid world0)) \<noteq> contact_property world0"
proof -
  have s: "storage (snd (handle env0 event_noid world0)) ''calls/2024/01/01/-transcript.txt'' \<noteq>
           storage world0 ''calls/2024/01/01/-transcript.txt''"
    by (simp add: handle_event_noid) (simp add: world0_def)
  have c: "contact_property (snd (handle env0 event_noid world0)) (1, 2) \<noteq> contact_property world0 (1, 2)"
    by (simp add: handle_event_noid) (simp add: world0_def)
  from s have s': "storage (snd (handle env0 event_noid world0)) \<noteq> storage world0" by metis
  from c have c': "contact_property (snd (handle env0 event_noid world0)) \<noteq> contact_property world0" by metis
  show ?thesis using s' c'
    by (simp add: handle_event_noid) (simp add: world0_def event_noid_def)
qed

subsection \<open>Events whose contact and property are both unknown\<close>

text \<open>
  What holds for such an event: the notes and the pivot are as before the run, a
  transcript that passes \<^verbatim>\<open>if ($transcript)\<close> is stored (\<open>handle_transcript_stored\<close>), and
  the run completes exactly when the classification returns.
\<close>

lemma unresolved_ids_frame:
  assumes "int_of (contact_id data) \<notin> contacts w" "int_of (property_id data) \<notin> properties w"
  shows "notes_table (snd (handle e data w)) = notes_table w"
    and "contact_property (snd (handle e data w)) = contact_property w"
    and "(fst (handle e data w) = None) =
           (\<exists>a. snd (analyzeCallSummaryForInterestLevel (conv e) (openai e) (string_of (summary data))) = Inr a)"
proof -
  show "notes_table (snd (handle e data w)) = notes_table w"
    using assms by (simp add: handle_notes find_notable_def)
  show "contact_property (snd (handle e data w)) = contact_property w"
    using assms(1) by (simp add: handle_steps update_interest_no_contact(1))
  show "(fst (handle e data w) = None) =
           (\<exists>a. snd (analyzeCallSummaryForInterestLevel (conv e) (openai e) (string_of (summary data))) = Inr a)"
    using assms(1) by (simp add: handle_steps update_interest_no_contact(2))
qed

text \<open>
  C10: for an event whose contact and property are both unknown the run is claimed to
  leave the relational store unchanged, to store the transcript, and to complete without
  an error. The first two hold (\<open>unresolved_ids_frame\<close>); the third does not, because the
  classification is invoked for such an event as well and its \<^verbatim>\<open>ConnectionException\<close> is
  not caught, unlike the one of the recording download. With the reasoning service
  unreachable, the run of the event below (contact 7 and property 8 do not exist) stores
  the transcript, leaves notes and pivot alone, and ends in the exception.
\<close>

theorem unresolved_ids_job_fails:
  "handle env_down event_unknown world0 =
     (Some ConnectionException,
      world0\<lparr>storage := [''calls/2024/01/01/c9-transcript.txt'' \<mapsto> ''hello''],
             posted := [prompt_of ''no answer'']\<rparr>)"
  by (simp add: handle_steps update_interest_def analyzeCallSummaryForInterestLevel_def backoff_def Let_def
      env_down_def env0_def event_unknown_def world0_def int_of_def string_of_def
      create_note_def find_notable_def persist_transcript_def download_recording_def truthy_def)

end
